theory Spec2Isabelle
  imports Complex_Main "HOL-Library.AList" "HOL-Library.Sublist"
begin

section \<open>Values of the request body\<close>

text \<open>
  The handlers work on the value that \<^verbatim>\<open>await request.json()\<close> returns: a Python value
  built from \<^verbatim>\<open>None\<close>, \<^verbatim>\<open>bool\<close>, \<^verbatim>\<open>int\<close>, \<^verbatim>\<open>float\<close>, \<^verbatim>\<open>str\<close>, \<^verbatim>\<open>list\<close> and \<^verbatim>\<open>dict\<close>
  with \<^verbatim>\<open>str\<close> keys. A \<^verbatim>\<open>dict\<close> is an association list read with \<open>map_of\<close>
  (a Python dict has one value for each key; where a list repeats a key, the first
  binding is that value). A \<^verbatim>\<open>float\<close> is given by the value of the double, the only
  operation on it here being the comparison with the integers 0 and 1, which Python
  decides exactly.
\<close>

datatype json =
    JNull
  | JBool bool
  | JInt int
  | JFloat real
  | JStr string
  | JArr "json list"
  | JObj "(string \<times> json) list"

text \<open>The exceptions that leave the handlers.\<close>

datatype error =
    KeyError string
  | TypeError
  | AttributeError
  | OtherError string

text \<open>
  \<^verbatim>\<open>v[k]\<close> for a \<^verbatim>\<open>str\<close> key: a \<^verbatim>\<open>dict\<close> raises \<^verbatim>\<open>KeyError\<close> on a missing key; a
  \<^verbatim>\<open>list\<close> or a \<^verbatim>\<open>str\<close> wants an integer index and every other value is not
  subscriptable (\<^verbatim>\<open>TypeError\<close>).
\<close>

fun subscript :: "json \<Rightarrow> string \<Rightarrow> error + json" where
  "subscript (JObj kvs) k = (case map_of kvs k of None \<Rightarrow> Inl (KeyError k) | Some v \<Rightarrow> Inr v)"
| "subscript _ k = Inl TypeError"

text \<open>
  \<^verbatim>\<open>v.get(k)\<close>: on a \<^verbatim>\<open>dict\<close> the value, or \<^verbatim>\<open>None\<close> when the key is missing; no other
  value of a request body has a \<^verbatim>\<open>get\<close> attribute (\<^verbatim>\<open>AttributeError\<close>).
\<close>

fun get :: "json \<Rightarrow> string \<Rightarrow> error + json" where
  "get (JObj kvs) k = (case map_of kvs k of None \<Rightarrow> Inr JNull | Some v \<Rightarrow> Inr v)"
| "get _ k = Inl AttributeError"

text \<open>
  \<^verbatim>\<open>v == n\<close> for an \<^verbatim>\<open>int\<close> literal \<open>n\<close>: numbers compare by value, \<^verbatim>\<open>bool\<close> is a subclass
  of \<^verbatim>\<open>int\<close> (\<^verbatim>\<open>False == 0\<close>, \<^verbatim>\<open>True == 1\<close>), everything else is unequal.
\<close>

fun eq_int :: "json \<Rightarrow> int \<Rightarrow> bool" where
  "eq_int (JInt i) n = (i = n)"
| "eq_int (JBool b) n = ((if b then 1 else 0) = n)"
| "eq_int (JFloat r) n = (r = of_int n)"
| "eq_int _ n = False"

text \<open>\<^verbatim>\<open>v == s\<close> for a \<^verbatim>\<open>str\<close> literal \<open>s\<close>: only an equal \<^verbatim>\<open>str\<close> compares equal.\<close>

definition eq_str :: "json \<Rightarrow> string \<Rightarrow> bool" where
  "eq_str v s = (v = JStr s)"

section \<open>The inherited client\<close>

text \<open>
  Arguments of a notification: an object of the gateway library (user, guild,
  entitlement) or a value of the payload passed on as it is.
\<close>

datatype 'o arg = Obj 'o | Json json

type_synonym 'o notification = "string \<times> 'o arg list"

text \<open>
  The part of the gateway library the handlers call, which is not code of this package
  and comes with the base class: the constructor \<^verbatim>\<open>discord.User(state=..., data=...)\<close>,
  and the methods
  \<^verbatim>\<open>_get_create_guild\<close> and \<^verbatim>\<open>parse_entitlement_create\<close> of \<^verbatim>\<open>self._connection\<close>. They are
  parameters of the model. \<open>'s\<close> is the connection state with its cache, \<open>'o\<close> the
  library's objects. Each call may raise; the two methods return the connection state
  they leave, and \<^verbatim>\<open>parse_entitlement_create\<close> the notifications it emits itself.
\<close>

record ('s, 'o) library =
  User :: "'s \<Rightarrow> json \<Rightarrow> error + 'o"
  get_create_guild :: "'s \<Rightarrow> json \<Rightarrow> error + 'o \<times> 's"
  parse_entitlement_create :: "'s \<Rightarrow> json \<Rightarrow> error + 'o notification list \<times> 's"

text \<open>
  The client as the handlers see it: \<^verbatim>\<open>self._connection\<close> and the notifications
  handed to \<^verbatim>\<open>self.dispatch\<close> so far, oldest first.
\<close>

record ('s, 'o) client =
  connection :: 's
  dispatched :: "'o notification list"

text \<open>\<^verbatim>\<open>self.dispatch(name, *args)\<close> emits one notification.\<close>

definition dispatch :: "('s, 'o) client \<Rightarrow> string \<Rightarrow> 'o arg list \<Rightarrow> ('s, 'o) client" where
  "dispatch self name args = self\<lparr>dispatched := dispatched self @ [(name, args)]\<rparr>"

datatype response = Response nat

section \<open>Client\<close>

text \<open>
  \<^verbatim>\<open>Client._dispatch_webhook_event\<close>. The \<^verbatim>\<open>elif\<close> reads \<^verbatim>\<open>event['type']\<close> a second
  time; the event has not changed between the two reads, so the model reads it once.
\<close>

definition Client_dispatch_webhook_event ::
  "('s, 'o) library \<Rightarrow> ('s, 'o) client \<Rightarrow> json \<Rightarrow> error + ('s, 'o) client" where
  "Client_dispatch_webhook_event L self event =
    (case subscript event ''type'' of
       Inl e \<Rightarrow> Inl e
     | Inr ty \<Rightarrow>
        if eq_str ty ''APPLICATION_AUTHORIZED'' then
          (case subscript event ''data'' of
             Inl e \<Rightarrow> Inl e
           | Inr data \<Rightarrow>
              (case get data ''guild'' of
                 Inl e \<Rightarrow> Inl e
               | Inr guild_data \<Rightarrow>
                  (case subscript data ''user'' of
                     Inl e \<Rightarrow> Inl e
                   | Inr user_data \<Rightarrow>
                      (case User L (connection self) user_data of
                         Inl e \<Rightarrow> Inl e
                       | Inr user \<Rightarrow>
                          if guild_data = JNull then
                            (case subscript data ''scopes'' of
                               Inl e \<Rightarrow> Inl e
                             | Inr scopes \<Rightarrow>
                                Inr (dispatch self ''user_install'' [Obj user, Json scopes]))
                          else
                            (case get_create_guild L (connection self) guild_data of
                               Inl e \<Rightarrow> Inl e
                             | Inr (guild, st) \<Rightarrow>
                                (case subscript data ''scopes'' of
                                   Inl e \<Rightarrow> Inl e
                                 | Inr scopes \<Rightarrow>
                                    Inr (dispatch (self\<lparr>connection := st\<rparr>) ''guild_install''
                                           [Obj guild, Obj user, Json scopes])))))))
        else if eq_str ty ''ENTITLEMENT_CREATE'' then
          (case subscript event ''data'' of
             Inl e \<Rightarrow> Inl e
           | Inr data \<Rightarrow>
              (case parse_entitlement_create L (connection self) data of
                 Inl e \<Rightarrow> Inl e
               | Inr (emitted, st) \<Rightarrow>
                  Inr (self\<lparr>connection := st, dispatched := dispatched self @ emitted\<rparr>)))
        else Inr self)"

text \<open>
  \<^verbatim>\<open>Client.__route\<close>, from the parsed body on. The result is the response together with
  the client the handler leaves, or the exception that escapes the handler.
\<close>

definition Client_route ::
  "('s, 'o) library \<Rightarrow> ('s, 'o) client \<Rightarrow> json \<Rightarrow> error + response \<times> ('s, 'o) client" where
  "Client_route L self data =
    (case get data ''type'' of
       Inl e \<Rightarrow> Inl e
     | Inr ty \<Rightarrow>
        if eq_int ty 0 then Inr (Response 204, self)
        else if eq_int ty 1 then
          (case subscript data ''event'' of
             Inl e \<Rightarrow> Inl e
           | Inr event \<Rightarrow>
              (case Client_dispatch_webhook_event L self event of
                 Inl e \<Rightarrow> Inl e
               | Inr self' \<Rightarrow> Inr (Response 204, self')))
        else Inr (Response 400, self))"

section \<open>AutoShardedClient\<close>

text \<open>
  \<^verbatim>\<open>AutoShardedClient._dispatch_webhook_event\<close>. The \<^verbatim>\<open>elif\<close> reads \<^verbatim>\<open>event['type']\<close> a second
  time; the event has not changed between the two reads, so the model reads it once.
\<close>

definition AutoShardedClient_dispatch_webhook_event ::
  "('s, 'o) library \<Rightarrow> ('s, 'o) client \<Rightarrow> json \<Rightarrow> error + ('s, 'o) client" where
  "AutoShardedClient_dispatch_webhook_event L self event =
    (case subscript event ''type'' of
       Inl e \<Rightarrow> Inl e
     | Inr ty \<Rightarrow>
        if eq_str ty ''APPLICATION_AUTHORIZED'' then
          (case subscript event ''data'' of
             Inl e \<Rightarrow> Inl e
           | Inr data \<Rightarrow>
              (case get data ''guild'' of
                 Inl e \<Rightarrow> Inl e
               | Inr guild_data \<Rightarrow>
                  (case subscript data ''user'' of
                     Inl e \<Rightarrow> Inl e
                   | Inr user_data \<Rightarrow>
                      (case User L (connection self) user_data of
                         Inl e \<Rightarrow> Inl e
                       | Inr user \<Rightarrow>
                          if guild_data = JNull then
                            (case subscript data ''scopes'' of
                               Inl e \<Rightarrow> Inl e
                             | Inr scopes \<Rightarrow>
                                Inr (dispatch self ''user_install'' [Obj user, Json scopes]))
                          else
                            (case get_create_guild L (connection self) guild_data of
                               Inl e \<Rightarrow> Inl e
                             | Inr (guild, st) \<Rightarrow>
                                (case subscript data ''scopes'' of
                                   Inl e \<Rightarrow> Inl e
                                 | Inr scopes \<Rightarrow>
                                    Inr (dispatch (self\<lparr>connection := st\<rparr>) ''guild_install''
                                           [Obj guild, Obj user, Json scopes])))))))
        else if eq_str ty ''ENTITLEMENT_CREATE'' then
          (case subscript event ''data'' of
             Inl e \<Rightarrow> Inl e
           | Inr data \<Rightarrow>
              (case parse_entitlement_create L (connection self) data of
                 Inl e \<Rightarrow> Inl e
               | Inr (emitted, st) \<Rightarrow>
                  Inr (self\<lparr>connection := st, dispatched := dispatched self @ emitted\<rparr>)))
        else Inr self)"

text \<open>
  \<^verbatim>\<open>AutoShardedClient.__route\<close>, from the parsed body on. The result is the response together with
  the client the handler leaves, or the exception that escapes the handler.
\<close>

definition AutoShardedClient_route ::
  "('s, 'o) library \<Rightarrow> ('s, 'o) client \<Rightarrow> json \<Rightarrow> error + response \<times> ('s, 'o) client" where
  "AutoShardedClient_route L self data =
    (case get data ''type'' of
       Inl e \<Rightarrow> Inl e
     | Inr ty \<Rightarrow>
        if eq_int ty 0 then Inr (Response 204, self)
        else if eq_int ty 1 then
          (case subscript data ''event'' of
             Inl e \<Rightarrow> Inl e
           | Inr event \<Rightarrow>
              (case AutoShardedClient_dispatch_webhook_event L self event of
                 Inl e \<Rightarrow> Inl e
               | Inr self' \<Rightarrow> Inr (Response 204, self')))
        else Inr (Response 400, self))"

section \<open>Bot\<close>

text \<open>
  \<^verbatim>\<open>Bot._dispatch_webhook_event\<close>. The \<^verbatim>\<open>elif\<close> reads \<^verbatim>\<open>event['type']\<close> a second
  time; the event has not changed between the two reads, so the model reads it once.
\<close>

definition Bot_dispatch_webhook_event ::
  "('s, 'o) library \<Rightarrow> ('s, 'o) client \<Rightarrow> json \<Rightarrow> error + ('s, 'o) client" where
  "Bot_dispatch_webhook_event L self event =
    (case subscript event ''type'' of
       Inl e \<Rightarrow> Inl e
     | Inr ty \<Rightarrow>
        if eq_str ty ''APPLICATION_AUTHORIZED'' then
          (case subscript event ''data'' of
             Inl e \<Rightarrow> Inl e
           | Inr data \<Rightarrow>
              (case get data ''guild'' of
                 Inl e \<Rightarrow> Inl e
               | Inr guild_data \<Rightarrow>
                  (case subscript data ''user'' of
                     Inl e \<Rightarrow> Inl e
                   | Inr user_data \<Rightarrow>
                      (case User L (connection self) user_data of
                         Inl e \<Rightarrow> Inl e
                       | Inr user \<Rightarrow>
                          if guild_data = JNull then
                            (case subscript data ''scopes'' of
                               Inl e \<Rightarrow> Inl e
                             | Inr scopes \<Rightarrow>
                                Inr (dispatch self ''user_install'' [Obj user, Json scopes]))
                          else
                            (case get_create_guild L (connection self) guild_data of
                               Inl e \<Rightarrow> Inl e
                             | Inr (guild, st) \<Rightarrow>
                                (case subscript data ''scopes'' of
                                   Inl e \<Rightarrow> Inl e
                                 | Inr scopes \<Rightarrow>
                                    Inr (dispatch (self\<lparr>connection := st\<rparr>) ''guild_install''
                                           [Obj guild, Obj user, Json scopes])))))))
        else if eq_str ty ''ENTITLEMENT_CREATE'' then
          (case subscript event ''data'' of
             Inl e \<Rightarrow> Inl e
           | Inr data \<Rightarrow>
              (case parse_entitlement_create L (connection self) data of
                 Inl e \<Rightarrow> Inl e
               | Inr (emitted, st) \<Rightarrow>
                  Inr (self\<lparr>connection := st, dispatched := dispatched self @ emitted\<rparr>)))
        else Inr self)"

text \<open>
  \<^verbatim>\<open>Bot.__route\<close>, from the parsed body on. The result is the response together with
  the client the handler leaves, or the exception that escapes the handler.
\<close>

definition Bot_route ::
  "('s, 'o) library \<Rightarrow> ('s, 'o) client \<Rightarrow> json \<Rightarrow> error + response \<times> ('s, 'o) client" where
  "Bot_route L self data =
    (case get data ''type'' of
       Inl e \<Rightarrow> Inl e
     | Inr ty \<Rightarrow>
        if eq_int ty 0 then Inr (Response 204, self)
        else if eq_int ty 1 then
          (case subscript data ''event'' of
             Inl e \<Rightarrow> Inl e
           | Inr event \<Rightarrow>
              (case Bot_dispatch_webhook_event L self event of
                 Inl e \<Rightarrow> Inl e
               | Inr self' \<Rightarrow> Inr (Response 204, self')))
        else Inr (Response 400, self))"

section \<open>AutoShardedBot\<close>

text \<open>
  \<^verbatim>\<open>AutoShardedBot._dispatch_webhook_event\<close>. The \<^verbatim>\<open>elif\<close> reads \<^verbatim>\<open>event['type']\<close> a second
  time; the event has not changed between the two reads, so the model reads it once.
\<close>

definition AutoShardedBot_dispatch_webhook_event ::
  "('s, 'o) library \<Rightarrow> ('s, 'o) client \<Rightarrow> json \<Rightarrow> error + ('s, 'o) client" where
  "AutoShardedBot_dispatch_webhook_event L self event =
    (case subscript event ''type'' of
       Inl e \<Rightarrow> Inl e
     | Inr ty \<Rightarrow>
        if eq_str ty ''APPLICATION_AUTHORIZED'' then
          (case subscript event ''data'' of
             Inl e \<Rightarrow> Inl e
           | Inr data \<Rightarrow>
              (case get data ''guild'' of
                 Inl e \<Rightarrow> Inl e
               | Inr guild_data \<Rightarrow>
                  (case subscript data ''user'' of
                     Inl e \<Rightarrow> Inl e
                   | Inr user_data \<Rightarrow>
                      (case User L (connection self) user_data of
                         Inl e \<Rightarrow> Inl e
                       | Inr user \<Rightarrow>
                          if guild_data = JNull then
                            (case subscript data ''scopes'' of
                               Inl e \<Rightarrow> Inl e
                             | Inr scopes \<Rightarrow>
                                Inr (dispatch self ''user_install'' [Obj user, Json scopes]))
                          else
                            (case get_create_guild L (connection self) guild_data of
                               Inl e \<Rightarrow> Inl e
                             | Inr (guild, st) \<Rightarrow>
                                (case subscript data ''scopes'' of
                                   Inl e \<Rightarrow> Inl e
                                 | Inr scopes \<Rightarrow>
                                    Inr (dispatch (self\<lparr>connection := st\<rparr>) ''guild_install''
                                           [Obj guild, Obj user, Json scopes])))))))
        else if eq_str ty ''ENTITLEMENT_CREATE'' then
          (case subscript event ''data'' of
             Inl e \<Rightarrow> Inl e
           | Inr data \<Rightarrow>
              (case parse_entitlement_create L (connection self) data of
                 Inl e \<Rightarrow> Inl e
               | Inr (emitted, st) \<Rightarrow>
                  Inr (self\<lparr>connection := st, dispatched := dispatched self @ emitted\<rparr>)))
        else Inr self)"

text \<open>
  \<^verbatim>\<open>AutoShardedBot.__route\<close>, from the parsed body on. The result is the response together with
  the client the handler leaves, or the exception that escapes the handler.
\<close>

definition AutoShardedBot_route ::
  "('s, 'o) library \<Rightarrow> ('s, 'o) client \<Rightarrow> json \<Rightarrow> error + response \<times> ('s, 'o) client" where
  "AutoShardedBot_route L self data =
    (case get data ''type'' of
       Inl e \<Rightarrow> Inl e
     | Inr ty \<Rightarrow>
        if eq_int ty 0 then Inr (Response 204, self)
        else if eq_int ty 1 then
          (case subscript data ''event'' of
             Inl e \<Rightarrow> Inl e
           | Inr event \<Rightarrow>
              (case AutoShardedBot_dispatch_webhook_event L self event of
                 Inl e \<Rightarrow> Inl e
               | Inr self' \<Rightarrow> Inr (Response 204, self')))
        else Inr (Response 400, self))"

section \<open>The collaborators, from the specification\<close>

text \<open>
  Modelled from the spec: the objects of the gateway library (not under src/) that the
  dispatcher builds. The spec names a user object built "from the nested user payload",
  "the corresponding guild object" of a guild payload, and the entitlement of an
  entitlement payload; an object is given here by the payload it was built from.
\<close>

datatype object = UserObject json | GuildObject json | EntitlementObject json

text \<open>
  Modelled from the spec: the "pre-existing internal cache of the gateway client" (the
  connection state of the gateway library, not under src/), as far as the spec speaks
  of it: the guilds and the entitlements it holds.
\<close>

record cache =
  guilds :: "object list"
  entitlements :: "object list"

text \<open>
  Modelled from the spec: the constructor of the library's user class (not under src/),
  which "builds a user object from the nested user payload".
\<close>

definition gateway_User :: "cache \<Rightarrow> json \<Rightarrow> error + object" where
  "gateway_User st user_data = Inr (UserObject user_data)"

text \<open>
  Modelled from the spec: \<^verbatim>\<open>_get_create_guild\<close> of the connection state (not under
  src/), which "resolves/creates the corresponding guild object": the guild of the cache
  when the cache holds it, a new guild entered into the cache otherwise.
\<close>

definition gateway_get_create_guild :: "cache \<Rightarrow> json \<Rightarrow> error + object \<times> cache" where
  "gateway_get_create_guild st guild_data =
    (if GuildObject guild_data \<in> set (guilds st) then Inr (GuildObject guild_data, st)
     else Inr (GuildObject guild_data, st\<lparr>guilds := GuildObject guild_data # guilds st\<rparr>))"

text \<open>
  Modelled from the spec: \<^verbatim>\<open>parse_entitlement_create\<close> of the connection state (not under
  src/), "the existing entitlement-parsing path of the client's internal state, which is
  responsible for cache insertion and emitting its own notification".
\<close>

definition gateway_parse_entitlement_create ::
  "cache \<Rightarrow> json \<Rightarrow> error + object notification list \<times> cache" where
  "gateway_parse_entitlement_create st data =
    Inr ([(''entitlement_create'', [Obj (EntitlementObject data)])],
         st\<lparr>entitlements := EntitlementObject data # entitlements st\<rparr>)"

definition gateway :: "(cache, object) library" where
  "gateway =
    \<lparr>User = gateway_User,
     get_create_guild = gateway_get_create_guild,
     parse_entitlement_create = gateway_parse_entitlement_create\<rparr>"

text \<open>
  Modelled from the spec: what it is for a guild or an entitlement to be "resolvable"
  or "retrievable from the client's cache" (the lookups of the gateway library, not
  under src/): the cache holds the object of that payload.
\<close>

definition get_guild :: "cache \<Rightarrow> json \<Rightarrow> object option" where
  "get_guild st guild_data =
    (if GuildObject guild_data \<in> set (guilds st) then Some (GuildObject guild_data) else None)"

definition get_entitlement :: "cache \<Rightarrow> json \<Rightarrow> object option" where
  "get_entitlement st data =
    (if EntitlementObject data \<in> set (entitlements st) then Some (EntitlementObject data)
     else None)"

text \<open>
  Modelled from the spec: the HTTP server engine that runs the route handler (not under
  src/). It sends the status of the response the handler returns, and an exception that
  escapes the handler is "surfaced as [a] server error", status 500.
\<close>

definition http_status :: "error + response \<times> 'c \<Rightarrow> nat" where
  "http_status r = (case r of Inl e \<Rightarrow> 500 | Inr (Response status, c) \<Rightarrow> status)"

section \<open>Closing the client\<close>

text \<open>
  \<^verbatim>\<open>Client.close\<close> is a coroutine. Coroutines of one event loop run one at a time and
  give up control only at an \<^verbatim>\<open>await\<close>, so the code between two awaits is one atomic move
  and a run of the program is a sequence of such moves, in any order the loop picks.

  The effects of the statements of the inner coroutine \<^verbatim>\<open>_close\<close>, in the order of the
  source: \<^verbatim>\<open>self._connection.close()\<close>, \<^verbatim>\<open>self.ws.close(code=1000)\<close>,
  \<^verbatim>\<open>self._ready.clear()\<close>, \<^verbatim>\<open>self.__site.stop()\<close>, \<^verbatim>\<open>self.http.close()\<close> and
  \<^verbatim>\<open>self.loop = MISSING\<close>.
\<close>

datatype effect = ConnectionClose | WsClose | ReadyClear | SiteStop | HttpClose | LoopMissing

text \<open>
  The task that \<^verbatim>\<open>asyncio.create_task(_close())\<close> returns: \<open>Pending pc\<close> while the
  coroutine stands before its statement number \<open>pc\<close> (counted from 0), \<open>Done\<close> once it
  has returned, \<open>Failed\<close> once a statement has raised or the task was cancelled.
\<close>

datatype task = Pending nat | Done | Failed

text \<open>
  A coroutine that calls \<^verbatim>\<open>close()\<close>: it has not called yet, it is suspended at
  \<^verbatim>\<open>await self._closing_task\<close>, its call has returned, or its call has raised what the
  task raised.
\<close>

datatype caller = Idle | Awaiting | Returned | Raised

text \<open>
  The fields of the client that \<^verbatim>\<open>close\<close> reads and writes: \<^verbatim>\<open>self._closing_task\<close>
  (\<^verbatim>\<open>None\<close> until the first call), whether \<^verbatim>\<open>self.ws is not None and self.ws.open\<close>,
  whether \<^verbatim>\<open>self._ready is not MISSING\<close>, whether \<^verbatim>\<open>self.__site is not None\<close>; with them
  the effects performed so far, oldest first, the number of \<^verbatim>\<open>_close()\<close> coroutines
  created so far, and the callers.
\<close>

record closing =
  closing_task :: "task option"
  ws_open :: bool
  ready :: bool
  site :: bool
  effects :: "effect list"
  started :: nat
  callers :: "caller list"

text \<open>The effect of statement number \<open>pc\<close> of \<^verbatim>\<open>_close\<close>; three of them are guarded.\<close>

definition statement :: "closing \<Rightarrow> nat \<Rightarrow> effect list" where
  "statement self pc =
    (if pc = 0 then [ConnectionClose]
     else if pc = 1 then (if ws_open self then [WsClose] else [])
     else if pc = 2 then (if ready self then [ReadyClear] else [])
     else if pc = 3 then (if site self then [SiteStop] else [])
     else if pc = 4 then [HttpClose]
     else if pc = 5 then [LoopMissing]
     else [])"

text \<open>One teardown sequence: all six statements of \<^verbatim>\<open>_close\<close>, once each, in order.\<close>

definition teardown :: "closing \<Rightarrow> effect list" where
  "teardown self = concat (map (statement self) [0..<6])"

text \<open>
  \<^verbatim>\<open>Client.close\<close> called by caller \<open>i\<close>, up to its \<^verbatim>\<open>await\<close>: when
  \<^verbatim>\<open>self._closing_task\<close> is set (a task object is always true) the caller awaits it;
  otherwise the task is created and stored, and the caller awaits it. There is no
  \<^verbatim>\<open>await\<close> between the test and the assignment.
\<close>

definition Client_close :: "closing \<Rightarrow> nat \<Rightarrow> closing" where
  "Client_close self i =
    (if closing_task self \<noteq> None then self\<lparr>callers := (callers self)[i := Awaiting]\<rparr>
     else self\<lparr>closing_task := Some (Pending 0), started := Suc (started self),
               callers := (callers self)[i := Awaiting]\<rparr>)"

text \<open>
  The task runs statement \<open>pc\<close> of \<^verbatim>\<open>_close\<close>; after the last one the coroutine returns.
\<close>

definition Client_close_task :: "closing \<Rightarrow> nat \<Rightarrow> closing" where
  "Client_close_task self pc =
    self\<lparr>effects := effects self @ statement self pc,
         closing_task := Some (if pc = 5 then Done else Pending (Suc pc))\<rparr>"

text \<open>
  The moves of the event loop: caller \<open>i\<close> calls \<^verbatim>\<open>close()\<close>; the task runs its next
  statement; the statement the task stands at raises, or the task is cancelled; caller
  \<open>i\<close>, suspended on the task, is resumed once the task has finished. A move that is not
  possible in a state leaves it as it is.
\<close>

datatype move = Call nat | Run | Fail | Resume nat

fun loop_step :: "closing \<Rightarrow> move \<Rightarrow> closing" where
  "loop_step self (Call i) =
    (if i < length (callers self) \<and> callers self ! i = Idle then Client_close self i else self)"
| "loop_step self Run =
    (case closing_task self of Some (Pending pc) \<Rightarrow> Client_close_task self pc | _ \<Rightarrow> self)"
| "loop_step self Fail =
    (case closing_task self of
       Some (Pending pc) \<Rightarrow> self\<lparr>closing_task := Some Failed\<rparr>
     | _ \<Rightarrow> self)"
| "loop_step self (Resume i) =
    (if i < length (callers self) \<and> callers self ! i = Awaiting then
       (case closing_task self of
          Some Done \<Rightarrow> self\<lparr>callers := (callers self)[i := Returned]\<rparr>
        | Some Failed \<Rightarrow> self\<lparr>callers := (callers self)[i := Raised]\<rparr>
        | _ \<Rightarrow> self)
     else self)"

definition loop_run :: "closing \<Rightarrow> move list \<Rightarrow> closing" where
  "loop_run = foldl loop_step"

text \<open>A client on which \<^verbatim>\<open>close\<close> has not been called, with \<open>n\<close> callers to come.\<close>

definition open_client :: "bool \<Rightarrow> bool \<Rightarrow> bool \<Rightarrow> nat \<Rightarrow> closing" where
  "open_client ws rdy st n =
    \<lparr>closing_task = None, ws_open = ws, ready = rdy, site = st, effects = [], started = 0,
     callers = replicate n Idle\<rparr>"

text \<open>What holds in every state of a run, by the state of the task.\<close>

definition closing_inv :: "closing \<Rightarrow> bool" where
  "closing_inv self =
    (case closing_task self of
       None \<Rightarrow> effects self = [] \<and> started self = 0 \<and> (\<forall>c \<in> set (callers self). c = Idle)
     | Some (Pending pc) \<Rightarrow>
         pc < 6 \<and> started self = 1 \<and> effects self = concat (map (statement self) [0..<pc]) \<and>
         (\<forall>c \<in> set (callers self). c = Idle \<or> c = Awaiting)
     | Some Done \<Rightarrow>
         started self = 1 \<and> effects self = teardown self \<and>
         (\<forall>c \<in> set (callers self). c \<noteq> Raised)
     | Some Failed \<Rightarrow>
         started self = 1 \<and> (\<exists>pc<6. effects self = concat (map (statement self) [0..<pc])) \<and>
         (\<forall>c \<in> set (callers self). c \<noteq> Returned))"

section \<open>The dispatcher\<close>

lemma Client_user_install:
  assumes "map_of ev ''type'' = Some (JStr ''APPLICATION_AUTHORIZED'')"
    and "map_of ev ''data'' = Some (JObj d)"
    and "map_of d ''guild'' = None \<or> map_of d ''guild'' = Some JNull"
    and "map_of d ''user'' = Some user_data"
    and "User L (connection self) user_data = Inr user"
    and "map_of d ''scopes'' = Some scopes"
  shows "Client_dispatch_webhook_event L self (JObj ev) =
    Inr (dispatch self ''user_install'' [Obj user, Json scopes])"
  using assms by (auto simp add: Client_dispatch_webhook_event_def eq_str_def)

lemma Client_guild_install:
  assumes "map_of ev ''type'' = Some (JStr ''APPLICATION_AUTHORIZED'')"
    and "map_of ev ''data'' = Some (JObj d)"
    and "map_of d ''guild'' = Some guild_data"
    and "guild_data \<noteq> JNull"
    and "map_of d ''user'' = Some user_data"
    and "User L (connection self) user_data = Inr user"
    and "get_create_guild L (connection self) guild_data = Inr (guild, st)"
    and "map_of d ''scopes'' = Some scopes"
  shows "Client_dispatch_webhook_event L self (JObj ev) =
    Inr (dispatch (self\<lparr>connection := st\<rparr>) ''guild_install'' [Obj guild, Obj user, Json scopes])"
  using assms by (simp add: Client_dispatch_webhook_event_def eq_str_def)

lemma Client_entitlement_create:
  assumes "map_of ev ''type'' = Some (JStr ''ENTITLEMENT_CREATE'')"
    and "map_of ev ''data'' = Some data"
  shows "Client_dispatch_webhook_event L self (JObj ev) =
    (case parse_entitlement_create L (connection self) data of
       Inl e \<Rightarrow> Inl e
     | Inr (emitted, st) \<Rightarrow>
        Inr (self\<lparr>connection := st, dispatched := dispatched self @ emitted\<rparr>))"
  using assms by (simp add: Client_dispatch_webhook_event_def eq_str_def)

lemma Client_other_event:
  assumes "map_of ev ''type'' = Some ty"
    and "ty \<noteq> JStr ''APPLICATION_AUTHORIZED''"
    and "ty \<noteq> JStr ''ENTITLEMENT_CREATE''"
  shows "Client_dispatch_webhook_event L self (JObj ev) = Inr self"
  using assms by (simp add: Client_dispatch_webhook_event_def eq_str_def)

text \<open>
  C1. An \<^verbatim>\<open>APPLICATION_AUTHORIZED\<close> event whose data has no \<^verbatim>\<open>guild\<close> key, and has the
  \<^verbatim>\<open>user\<close> and \<^verbatim>\<open>scopes\<close> of such an event: the dispatcher returns normally and the client
  it leaves differs from the one it found by exactly one notification, appended last:
  \<^verbatim>\<open>user_install\<close> with the user object built from the \<^verbatim>\<open>user\<close> payload and then the
  \<^verbatim>\<open>scopes\<close> value. The connection state is the one it found.
\<close>

theorem user_install_dispatched:
  assumes "map_of ev ''type'' = Some (JStr ''APPLICATION_AUTHORIZED'')"
    and "map_of ev ''data'' = Some (JObj d)"
    and "map_of d ''guild'' = None"
    and "map_of d ''user'' = Some user_data"
    and "User L (connection self) user_data = Inr user"
    and "map_of d ''scopes'' = Some scopes"
  shows "Client_dispatch_webhook_event L self (JObj ev) =
    Inr (self\<lparr>dispatched := dispatched self @ [(''user_install'', [Obj user, Json scopes])]\<rparr>)"
  using Client_user_install [of ev d user_data L self user scopes] assms
  by (simp add: dispatch_def)

theorem user_install_dispatched_witness:
  "Client_dispatch_webhook_event gateway
     \<lparr>connection = \<lparr>guilds = [], entitlements = []\<rparr>, dispatched = []\<rparr>
     (JObj [(''type'', JStr ''APPLICATION_AUTHORIZED''),
            (''data'', JObj [(''integration_type'', JInt 1),
                             (''user'', JObj [(''id'', JStr ''7'')]),
                             (''scopes'', JArr [JStr ''applications.commands''])])]) =
   Inr \<lparr>connection = \<lparr>guilds = [], entitlements = []\<rparr>,
        dispatched = [(''user_install'',
          [Obj (UserObject (JObj [(''id'', JStr ''7'')])),
           Json (JArr [JStr ''applications.commands''])])]\<rparr>"
  using user_install_dispatched
    [of "[(''type'', JStr ''APPLICATION_AUTHORIZED''),
          (''data'', JObj [(''integration_type'', JInt 1),
                           (''user'', JObj [(''id'', JStr ''7'')]),
                           (''scopes'', JArr [JStr ''applications.commands''])])]"
        "[(''integration_type'', JInt 1),
          (''user'', JObj [(''id'', JStr ''7'')]),
          (''scopes'', JArr [JStr ''applications.commands''])]"
        "JObj [(''id'', JStr ''7'')]"
        gateway
        "\<lparr>connection = \<lparr>guilds = [], entitlements = []\<rparr>, dispatched = []\<rparr>"
        "UserObject (JObj [(''id'', JStr ''7'')])"
        "JArr [JStr ''applications.commands'']"]
  by (simp add: gateway_def gateway_User_def)

text \<open>
  C6. An event whose \<^verbatim>\<open>type\<close> is neither \<^verbatim>\<open>APPLICATION_AUTHORIZED\<close> nor
  \<^verbatim>\<open>ENTITLEMENT_CREATE\<close> (\<^verbatim>\<open>QUEST_USER_ENROLLMENT\<close> is one): the dispatcher returns
  normally and leaves the client as it found it, the connection state and the
  notifications emitted so far alike.
\<close>

theorem other_event_no_op:
  assumes "map_of ev ''type'' = Some (JStr ty)"
    and "ty \<noteq> ''APPLICATION_AUTHORIZED''"
    and "ty \<noteq> ''ENTITLEMENT_CREATE''"
  shows "Client_dispatch_webhook_event L self (JObj ev) = Inr self"
  using assms by (simp add: Client_other_event)

theorem other_event_no_op_witness:
  "Client_dispatch_webhook_event gateway
     \<lparr>connection = \<lparr>guilds = [], entitlements = []\<rparr>, dispatched = []\<rparr>
     (JObj [(''type'', JStr ''QUEST_USER_ENROLLMENT''), (''data'', JObj [])]) =
   Inr \<lparr>connection = \<lparr>guilds = [], entitlements = []\<rparr>, dispatched = []\<rparr>"
  using other_event_no_op
    [of "[(''type'', JStr ''QUEST_USER_ENROLLMENT''), (''data'', JObj [])]"
        "''QUEST_USER_ENROLLMENT''" gateway
        "\<lparr>connection = \<lparr>guilds = [], entitlements = []\<rparr>, dispatched = []\<rparr>"]
  by simp

text \<open>
  C2. An \<^verbatim>\<open>APPLICATION_AUTHORIZED\<close> event whose data has a \<^verbatim>\<open>guild\<close> value (not \<^verbatim>\<open>None\<close>),
  and the \<^verbatim>\<open>user\<close> and \<^verbatim>\<open>scopes\<close> of such an event. Whatever the library does, when its
  user constructor and \<^verbatim>\<open>_get_create_guild\<close> return, the dispatcher returns normally with
  the connection state that \<^verbatim>\<open>_get_create_guild\<close> left and exactly one more notification,
  \<^verbatim>\<open>guild_install\<close> with the guild, the user and the scopes in that order. With the
  collaborators of the specification the dispatcher does return, the guild of the
  notification is the one \<^verbatim>\<open>_get_create_guild\<close> resolved or created, and the cache the
  dispatcher leaves resolves the guild payload to it.
\<close>

theorem guild_install_dispatched:
  assumes "map_of ev ''type'' = Some (JStr ''APPLICATION_AUTHORIZED'')"
    and "map_of ev ''data'' = Some (JObj d)"
    and "map_of d ''guild'' = Some guild_data"
    and "guild_data \<noteq> JNull"
    and "map_of d ''user'' = Some user_data"
    and "map_of d ''scopes'' = Some scopes"
  shows "(\<forall>user guild st.
            User L (connection self) user_data = Inr user \<and>
            get_create_guild L (connection self) guild_data = Inr (guild, st) \<longrightarrow>
            Client_dispatch_webhook_event L self (JObj ev) =
              Inr \<lparr>connection = st,
                   dispatched = dispatched self @
                     [(''guild_install'', [Obj guild, Obj user, Json scopes])]\<rparr>) \<and>
         (\<exists>c'. Client_dispatch_webhook_event gateway c (JObj ev) = Inr c' \<and>
               get_create_guild gateway (connection c) guild_data =
                 Inr (GuildObject guild_data, connection c') \<and>
               dispatched c' = dispatched c @
                 [(''guild_install'',
                   [Obj (GuildObject guild_data), Obj (UserObject user_data), Json scopes])] \<and>
               get_guild (connection c') guild_data = Some (GuildObject guild_data))"
proof (intro conjI allI impI)
  fix user guild st
  assume "User L (connection self) user_data = Inr user \<and>
    get_create_guild L (connection self) guild_data = Inr (guild, st)"
  then show "Client_dispatch_webhook_event L self (JObj ev) =
    Inr \<lparr>connection = st,
         dispatched = dispatched self @ [(''guild_install'', [Obj guild, Obj user, Json scopes])]\<rparr>"
    using Client_guild_install [of ev d guild_data user_data L self user guild st scopes] assms
    by (simp add: dispatch_def)
next
  define st where "st =
    (if GuildObject guild_data \<in> set (guilds (connection c)) then connection c
     else connection c\<lparr>guilds := GuildObject guild_data # guilds (connection c)\<rparr>)"
  have st: "get_create_guild gateway (connection c) guild_data =
      Inr (GuildObject guild_data, st)"
    by (simp add: st_def gateway_def gateway_get_create_guild_def)
  have cached: "get_guild st guild_data = Some (GuildObject guild_data)"
    by (simp add: st_def get_guild_def)
  have user: "User gateway (connection c) user_data = Inr (UserObject user_data)"
    by (simp add: gateway_def gateway_User_def)
  have "Client_dispatch_webhook_event gateway c (JObj ev) =
    Inr (dispatch (c\<lparr>connection := st\<rparr>) ''guild_install''
          [Obj (GuildObject guild_data), Obj (UserObject user_data), Json scopes])"
    by (rule Client_guild_install [OF assms(1,2,3,4,5) user st assms(6)])
  with st cached show "\<exists>c'. Client_dispatch_webhook_event gateway c (JObj ev) = Inr c' \<and>
      get_create_guild gateway (connection c) guild_data =
        Inr (GuildObject guild_data, connection c') \<and>
      dispatched c' = dispatched c @
        [(''guild_install'',
          [Obj (GuildObject guild_data), Obj (UserObject user_data), Json scopes])] \<and>
      get_guild (connection c') guild_data = Some (GuildObject guild_data)"
    by (simp add: dispatch_def)
qed

theorem guild_install_dispatched_witness:
  "Client_dispatch_webhook_event gateway
     \<lparr>connection = \<lparr>guilds = [], entitlements = []\<rparr>, dispatched = []\<rparr>
     (JObj [(''type'', JStr ''APPLICATION_AUTHORIZED''),
            (''data'', JObj [(''guild'', JObj [(''id'', JStr ''3'')]),
                             (''user'', JObj [(''id'', JStr ''7'')]),
                             (''scopes'', JArr [JStr ''bot''])])]) =
   Inr \<lparr>connection = \<lparr>guilds = [GuildObject (JObj [(''id'', JStr ''3'')])], entitlements = []\<rparr>,
        dispatched = [(''guild_install'',
          [Obj (GuildObject (JObj [(''id'', JStr ''3'')])),
           Obj (UserObject (JObj [(''id'', JStr ''7'')])),
           Json (JArr [JStr ''bot''])])]\<rparr> \<and>
   get_guild \<lparr>guilds = [GuildObject (JObj [(''id'', JStr ''3'')])], entitlements = []\<rparr>
     (JObj [(''id'', JStr ''3'')]) = Some (GuildObject (JObj [(''id'', JStr ''3'')]))"
  using guild_install_dispatched
    [of "[(''type'', JStr ''APPLICATION_AUTHORIZED''),
          (''data'', JObj [(''guild'', JObj [(''id'', JStr ''3'')]),
                           (''user'', JObj [(''id'', JStr ''7'')]),
                           (''scopes'', JArr [JStr ''bot''])])]"
        "[(''guild'', JObj [(''id'', JStr ''3'')]),
          (''user'', JObj [(''id'', JStr ''7'')]),
          (''scopes'', JArr [JStr ''bot''])]"
        "JObj [(''id'', JStr ''3'')]"
        "JObj [(''id'', JStr ''7'')]"
        "JArr [JStr ''bot'']"
        gateway
        "\<lparr>connection = \<lparr>guilds = [], entitlements = []\<rparr>, dispatched = []\<rparr>"
        "\<lparr>connection = \<lparr>guilds = [], entitlements = []\<rparr>, dispatched = []\<rparr>"]
  by (simp add: gateway_def gateway_User_def gateway_get_create_guild_def get_guild_def)

text \<open>
  C3. An \<^verbatim>\<open>ENTITLEMENT_CREATE\<close> event: the dispatcher is one call of
  \<^verbatim>\<open>parse_entitlement_create\<close> of the connection state on the event's \<^verbatim>\<open>data\<close> value; it
  raises what the call raises and otherwise leaves the connection state the call left and
  the notifications the call emitted, and emits none of its own. With the collaborators
  of the specification the dispatcher returns and the cache it leaves holds the
  entitlement of that payload.
\<close>

theorem entitlement_create_forwarded:
  assumes "map_of ev ''type'' = Some (JStr ''ENTITLEMENT_CREATE'')"
    and "map_of ev ''data'' = Some data"
  shows "Client_dispatch_webhook_event L self (JObj ev) =
           (case parse_entitlement_create L (connection self) data of
              Inl e \<Rightarrow> Inl e
            | Inr (emitted, st) \<Rightarrow>
               Inr \<lparr>connection = st, dispatched = dispatched self @ emitted\<rparr>) \<and>
         (\<exists>c'. Client_dispatch_webhook_event gateway c (JObj ev) = Inr c' \<and>
               get_entitlement (connection c') data = Some (EntitlementObject data))"
proof
  show "Client_dispatch_webhook_event L self (JObj ev) =
    (case parse_entitlement_create L (connection self) data of
       Inl e \<Rightarrow> Inl e
     | Inr (emitted, st) \<Rightarrow> Inr \<lparr>connection = st, dispatched = dispatched self @ emitted\<rparr>)"
    using assms by (simp add: Client_entitlement_create split: sum.splits)
next
  show "\<exists>c'. Client_dispatch_webhook_event gateway c (JObj ev) = Inr c' \<and>
      get_entitlement (connection c') data = Some (EntitlementObject data)"
    using assms
    by (simp add: Client_entitlement_create gateway_def gateway_parse_entitlement_create_def
        get_entitlement_def)
qed

theorem entitlement_create_forwarded_witness:
  "Client_dispatch_webhook_event gateway
     \<lparr>connection = \<lparr>guilds = [], entitlements = []\<rparr>, dispatched = []\<rparr>
     (JObj [(''type'', JStr ''ENTITLEMENT_CREATE''),
            (''data'', JObj [(''id'', JStr ''9'')])]) =
   Inr \<lparr>connection =
          \<lparr>guilds = [], entitlements = [EntitlementObject (JObj [(''id'', JStr ''9'')])]\<rparr>,
        dispatched =
          [(''entitlement_create'', [Obj (EntitlementObject (JObj [(''id'', JStr ''9'')]))])]\<rparr>"
  using entitlement_create_forwarded
    [of "[(''type'', JStr ''ENTITLEMENT_CREATE''), (''data'', JObj [(''id'', JStr ''9'')])]"
        "JObj [(''id'', JStr ''9'')]"
        gateway
        "\<lparr>connection = \<lparr>guilds = [], entitlements = []\<rparr>, dispatched = []\<rparr>"
        "\<lparr>connection = \<lparr>guilds = [], entitlements = []\<rparr>, dispatched = []\<rparr>"]
  by (simp add: gateway_def gateway_parse_entitlement_create_def)

text \<open>
  C10. An \<^verbatim>\<open>APPLICATION_AUTHORIZED\<close> event whose data has the key \<^verbatim>\<open>guild\<close> with the value
  \<^verbatim>\<open>None\<close>: the dispatcher does on it what it does on the same event with the key deleted
  from the data, result, error and client alike; with the \<^verbatim>\<open>user\<close> and \<^verbatim>\<open>scopes\<close> of such
  an event that is the one notification \<^verbatim>\<open>user_install\<close>, and no \<^verbatim>\<open>guild_install\<close>.
\<close>

theorem null_guild_is_user_install:
  assumes "map_of ev ''type'' = Some (JStr ''APPLICATION_AUTHORIZED'')"
    and "map_of ev ''data'' = Some (JObj d)"
    and "map_of d ''guild'' = Some JNull"
  shows "Client_dispatch_webhook_event L self (JObj ev) =
           Client_dispatch_webhook_event L self
             (JObj (AList.update ''data'' (JObj (AList.delete ''guild'' d)) ev)) \<and>
         (\<forall>user_data user scopes.
            map_of d ''user'' = Some user_data \<and>
            User L (connection self) user_data = Inr user \<and>
            map_of d ''scopes'' = Some scopes \<longrightarrow>
            Client_dispatch_webhook_event L self (JObj ev) =
              Inr \<lparr>connection = connection self,
                   dispatched = dispatched self @
                     [(''user_install'', [Obj user, Json scopes])]\<rparr>)"
proof (intro conjI allI impI)
  show "Client_dispatch_webhook_event L self (JObj ev) =
    Client_dispatch_webhook_event L self
      (JObj (AList.update ''data'' (JObj (AList.delete ''guild'' d)) ev))"
    using assms
    by (simp add: Client_dispatch_webhook_event_def eq_str_def update_conv' delete_conv'
        split: sum.splits option.splits)
next
  fix user_data user scopes
  assume "map_of d ''user'' = Some user_data \<and>
    User L (connection self) user_data = Inr user \<and> map_of d ''scopes'' = Some scopes"
  then show "Client_dispatch_webhook_event L self (JObj ev) =
    Inr \<lparr>connection = connection self,
         dispatched = dispatched self @ [(''user_install'', [Obj user, Json scopes])]\<rparr>"
    using Client_user_install [of ev d user_data L self user scopes] assms
    by (simp add: dispatch_def)
qed

theorem null_guild_is_user_install_witness:
  "Client_dispatch_webhook_event gateway
     \<lparr>connection = \<lparr>guilds = [], entitlements = []\<rparr>, dispatched = []\<rparr>
     (JObj [(''type'', JStr ''APPLICATION_AUTHORIZED''),
            (''data'', JObj [(''guild'', JNull),
                             (''user'', JObj [(''id'', JStr ''7'')]),
                             (''scopes'', JArr [])])]) =
   Inr \<lparr>connection = \<lparr>guilds = [], entitlements = []\<rparr>,
        dispatched = [(''user_install'',
          [Obj (UserObject (JObj [(''id'', JStr ''7'')])), Json (JArr [])])]\<rparr>"
  using null_guild_is_user_install
    [of "[(''type'', JStr ''APPLICATION_AUTHORIZED''),
          (''data'', JObj [(''guild'', JNull),
                           (''user'', JObj [(''id'', JStr ''7'')]),
                           (''scopes'', JArr [])])]"
        "[(''guild'', JNull), (''user'', JObj [(''id'', JStr ''7'')]), (''scopes'', JArr [])]"
        gateway
        "\<lparr>connection = \<lparr>guilds = [], entitlements = []\<rparr>, dispatched = []\<rparr>"]
  by (simp add: gateway_def gateway_User_def Client_dispatch_webhook_event_def eq_str_def
      dispatch_def)

section \<open>The route handler\<close>

text \<open>
  C4. A body that is a \<^verbatim>\<open>dict\<close> whose \<^verbatim>\<open>type\<close> compares equal to 0: the handler returns the
  response with status 204 and leaves the client as it found it; no notification is
  emitted and the connection state is untouched.
\<close>

theorem ping_returns_204:
  assumes "map_of body ''type'' = Some ty"
    and "eq_int ty 0"
  shows "Client_route L self (JObj body) = Inr (Response 204, self)"
  using assms by (simp add: Client_route_def)

theorem ping_returns_204_witness:
  "Client_route gateway
     \<lparr>connection = \<lparr>guilds = [], entitlements = []\<rparr>, dispatched = []\<rparr>
     (JObj [(''version'', JInt 1), (''application_id'', JStr ''1''), (''type'', JInt 0)]) =
   Inr (Response 204, \<lparr>connection = \<lparr>guilds = [], entitlements = []\<rparr>, dispatched = []\<rparr>)"
  using ping_returns_204
    [of "[(''version'', JInt 1), (''application_id'', JStr ''1''), (''type'', JInt 0)]"
        "JInt 0" gateway
        "\<lparr>connection = \<lparr>guilds = [], entitlements = []\<rparr>, dispatched = []\<rparr>"]
  by simp

text \<open>
  C5, as the claim states it, fails on two kinds of body. The body \<^verbatim>\<open>{"type": false}\<close> has a
  \<^verbatim>\<open>type\<close> that is not the number 0 and not the number 1, and the handler answers 204,
  because \<^verbatim>\<open>False == 0\<close> holds in Python. The body \<^verbatim>\<open>[]\<close> has no \<^verbatim>\<open>type\<close> field, and the
  handler returns no response at all: \<^verbatim>\<open>data.get\<close> raises \<^verbatim>\<open>AttributeError\<close>.
\<close>

theorem unrecognized_type_counterexample:
  "map_of [(''type'', JBool False)] ''type'' \<noteq> Some (JInt 0) \<and>
   map_of [(''type'', JBool False)] ''type'' \<noteq> Some (JInt 1) \<and>
   Client_route gateway
     \<lparr>connection = \<lparr>guilds = [], entitlements = []\<rparr>, dispatched = []\<rparr>
     (JObj [(''type'', JBool False)]) =
   Inr (Response 204, \<lparr>connection = \<lparr>guilds = [], entitlements = []\<rparr>, dispatched = []\<rparr>) \<and>
   Client_route gateway
     \<lparr>connection = \<lparr>guilds = [], entitlements = []\<rparr>, dispatched = []\<rparr>
     (JArr []) = Inl AttributeError"
  by (simp add: Client_route_def)

text \<open>
  C5, amended. A body that is a \<^verbatim>\<open>dict\<close> whose \<^verbatim>\<open>type\<close> is missing, or compares equal neither
  to 0 nor to 1 (so is none of 0, 1, 0.0, 1.0, \<^verbatim>\<open>False\<close>, \<^verbatim>\<open>True\<close>): the handler returns the
  response with status 400 and leaves the client as it found it, no notification emitted.
\<close>

theorem unrecognized_type_returns_400:
  assumes "map_of body ''type'' = None \<or>
      (\<exists>ty. map_of body ''type'' = Some ty \<and> \<not> eq_int ty 0 \<and> \<not> eq_int ty 1)"
  shows "Client_route L self (JObj body) = Inr (Response 400, self)"
  using assms by (auto simp add: Client_route_def)

theorem unrecognized_type_returns_400_witness:
  "Client_route gateway
     \<lparr>connection = \<lparr>guilds = [], entitlements = []\<rparr>, dispatched = []\<rparr>
     (JObj [(''version'', JInt 1), (''type'', JInt 2)]) =
   Inr (Response 400, \<lparr>connection = \<lparr>guilds = [], entitlements = []\<rparr>, dispatched = []\<rparr>) \<and>
   Client_route gateway
     \<lparr>connection = \<lparr>guilds = [], entitlements = []\<rparr>, dispatched = []\<rparr>
     (JObj [(''version'', JInt 1)]) =
   Inr (Response 400, \<lparr>connection = \<lparr>guilds = [], entitlements = []\<rparr>, dispatched = []\<rparr>)"
  using unrecognized_type_returns_400
    [of "[(''version'', JInt 1), (''type'', JInt 2)]" gateway
        "\<lparr>connection = \<lparr>guilds = [], entitlements = []\<rparr>, dispatched = []\<rparr>"]
    unrecognized_type_returns_400
    [of "[(''version'', JInt 1)]" gateway
        "\<lparr>connection = \<lparr>guilds = [], entitlements = []\<rparr>, dispatched = []\<rparr>"]
  by simp

text \<open>
  C8. A body that is a \<^verbatim>\<open>dict\<close> whose \<^verbatim>\<open>type\<close> compares equal to 1. When it has no \<^verbatim>\<open>event\<close>
  key, the handler raises \<^verbatim>\<open>KeyError\<close>. When its event is an \<^verbatim>\<open>APPLICATION_AUTHORIZED\<close> event
  whose data has no \<^verbatim>\<open>user\<close> key, the handler raises \<^verbatim>\<open>KeyError\<close>; when the data has a user
  and no \<^verbatim>\<open>scopes\<close> key, and the library calls made before the scopes are read return, the
  handler raises \<^verbatim>\<open>KeyError\<close>. Nothing catches the exception, no response is returned, and
  the server answers with status 500.
\<close>

theorem missing_nested_field_raises:
  assumes "map_of body ''type'' = Some ty"
    and "eq_int ty 1"
  shows "(map_of body ''event'' = None \<longrightarrow>
            Client_route L self (JObj body) = Inl (KeyError ''event'') \<and>
            http_status (Client_route L self (JObj body)) = 500) \<and>
         (\<forall>ev d.
            map_of body ''event'' = Some (JObj ev) \<and>
            map_of ev ''type'' = Some (JStr ''APPLICATION_AUTHORIZED'') \<and>
            map_of ev ''data'' = Some (JObj d) \<and>
            map_of d ''user'' = None \<longrightarrow>
            Client_route L self (JObj body) = Inl (KeyError ''user'') \<and>
            http_status (Client_route L self (JObj body)) = 500) \<and>
         (\<forall>ev d user_data user.
            map_of body ''event'' = Some (JObj ev) \<and>
            map_of ev ''type'' = Some (JStr ''APPLICATION_AUTHORIZED'') \<and>
            map_of ev ''data'' = Some (JObj d) \<and>
            map_of d ''user'' = Some user_data \<and>
            User L (connection self) user_data = Inr user \<and>
            (map_of d ''guild'' = None \<or> map_of d ''guild'' = Some JNull \<or>
             (\<exists>guild_data r. map_of d ''guild'' = Some guild_data \<and>
                get_create_guild L (connection self) guild_data = Inr r)) \<and>
            map_of d ''scopes'' = None \<longrightarrow>
            Client_route L self (JObj body) = Inl (KeyError ''scopes'') \<and>
            http_status (Client_route L self (JObj body)) = 500)"
proof -
  have ty: "\<not> eq_int ty 0"
    using assms(2) by (cases ty) (auto split: if_splits)
  have no_event: "Client_route L self (JObj body) = Inl (KeyError ''event'')"
    if "map_of body ''event'' = None"
    using that assms(1,2) ty by (simp add: Client_route_def)
  have no_user: "Client_route L self (JObj body) = Inl (KeyError ''user'')"
    if "map_of body ''event'' = Some (JObj ev)"
      and "map_of ev ''type'' = Some (JStr ''APPLICATION_AUTHORIZED'')"
      and "map_of ev ''data'' = Some (JObj d)"
      and "map_of d ''user'' = None" for ev d
    using that assms(1,2) ty
    by (simp add: Client_route_def Client_dispatch_webhook_event_def eq_str_def
        split: option.splits)
  have no_scopes: "Client_route L self (JObj body) = Inl (KeyError ''scopes'')"
    if "map_of body ''event'' = Some (JObj ev)"
      and "map_of ev ''type'' = Some (JStr ''APPLICATION_AUTHORIZED'')"
      and "map_of ev ''data'' = Some (JObj d)"
      and "map_of d ''user'' = Some user_data"
      and "User L (connection self) user_data = Inr user"
      and "map_of d ''guild'' = None \<or> map_of d ''guild'' = Some JNull \<or>
        (\<exists>guild_data r. map_of d ''guild'' = Some guild_data \<and>
           get_create_guild L (connection self) guild_data = Inr r)"
      and "map_of d ''scopes'' = None" for ev d user_data user
    using that assms(1,2) ty
    by (auto simp add: Client_route_def Client_dispatch_webhook_event_def eq_str_def
        split: option.splits)
  show ?thesis
    using no_event no_user no_scopes by (simp add: http_status_def)
qed

theorem missing_nested_field_raises_witness:
  "Client_route gateway
     \<lparr>connection = \<lparr>guilds = [], entitlements = []\<rparr>, dispatched = []\<rparr>
     (JObj [(''type'', JInt 1)]) = Inl (KeyError ''event'') \<and>
   http_status (Client_route gateway
     \<lparr>connection = \<lparr>guilds = [], entitlements = []\<rparr>, dispatched = []\<rparr>
     (JObj [(''type'', JInt 1)])) = 500 \<and>
   Client_route gateway
     \<lparr>connection = \<lparr>guilds = [], entitlements = []\<rparr>, dispatched = []\<rparr>
     (JObj [(''type'', JInt 1),
            (''event'', JObj [(''type'', JStr ''APPLICATION_AUTHORIZED''),
                              (''data'', JObj [(''scopes'', JArr [])])])]) =
   Inl (KeyError ''user'') \<and>
   Client_route gateway
     \<lparr>connection = \<lparr>guilds = [], entitlements = []\<rparr>, dispatched = []\<rparr>
     (JObj [(''type'', JInt 1),
            (''event'', JObj [(''type'', JStr ''APPLICATION_AUTHORIZED''),
                              (''data'', JObj [(''user'', JObj [])])])]) =
   Inl (KeyError ''scopes'')"
  using missing_nested_field_raises
    [of "[(''type'', JInt 1)]" "JInt 1" gateway
        "\<lparr>connection = \<lparr>guilds = [], entitlements = []\<rparr>, dispatched = []\<rparr>"]
    missing_nested_field_raises
    [of "[(''type'', JInt 1),
          (''event'', JObj [(''type'', JStr ''APPLICATION_AUTHORIZED''),
                            (''data'', JObj [(''scopes'', JArr [])])])]"
        "JInt 1" gateway
        "\<lparr>connection = \<lparr>guilds = [], entitlements = []\<rparr>, dispatched = []\<rparr>"]
    missing_nested_field_raises
    [of "[(''type'', JInt 1),
          (''event'', JObj [(''type'', JStr ''APPLICATION_AUTHORIZED''),
                            (''data'', JObj [(''user'', JObj [])])])]"
        "JInt 1" gateway
        "\<lparr>connection = \<lparr>guilds = [], entitlements = []\<rparr>, dispatched = []\<rparr>"]
  by (simp add: gateway_def gateway_User_def Client_route_def Client_dispatch_webhook_event_def
      eq_str_def http_status_def)

section \<open>The four entry classes\<close>

text \<open>
  C9. On the same inherited client, the same client state and the same input, the route
  handlers of \<^verbatim>\<open>AutoShardedClient\<close>, \<^verbatim>\<open>Bot\<close> and \<^verbatim>\<open>AutoShardedBot\<close> return what the route
  handler of \<^verbatim>\<open>Client\<close> returns (the same response, so the same status, the same
  exception, the same client with the same notifications), and so do the dispatchers.
\<close>

theorem entry_classes_equivalent:
  "AutoShardedClient_route L self body = Client_route L self body \<and>
   Bot_route L self body = Client_route L self body \<and>
   AutoShardedBot_route L self body = Client_route L self body \<and>
   AutoShardedClient_dispatch_webhook_event L self event =
     Client_dispatch_webhook_event L self event \<and>
   Bot_dispatch_webhook_event L self event = Client_dispatch_webhook_event L self event \<and>
   AutoShardedBot_dispatch_webhook_event L self event =
     Client_dispatch_webhook_event L self event"
proof -
  have d1: "AutoShardedClient_dispatch_webhook_event L self = Client_dispatch_webhook_event L self"
    by (rule ext)
      (simp only: AutoShardedClient_dispatch_webhook_event_def Client_dispatch_webhook_event_def)
  have d2: "Bot_dispatch_webhook_event L self = Client_dispatch_webhook_event L self"
    by (rule ext) (simp only: Bot_dispatch_webhook_event_def Client_dispatch_webhook_event_def)
  have d3: "AutoShardedBot_dispatch_webhook_event L self = Client_dispatch_webhook_event L self"
    by (rule ext)
      (simp only: AutoShardedBot_dispatch_webhook_event_def Client_dispatch_webhook_event_def)
  have r1: "AutoShardedClient_route L self body = Client_route L self body"
    by (simp only: AutoShardedClient_route_def Client_route_def d1)
  have r2: "Bot_route L self body = Client_route L self body"
    by (simp only: Bot_route_def Client_route_def d2)
  have r3: "AutoShardedBot_route L self body = Client_route L self body"
    by (simp only: AutoShardedBot_route_def Client_route_def d3)
  show ?thesis
    using r1 r2 r3 by (simp add: d1 d2 d3)
qed

section \<open>Closing\<close>

lemma statement_update [simp]:
  "statement (effects_update f s) = statement s"
  "statement (closing_task_update g s) = statement s"
  "statement (started_update h s) = statement s"
  "statement (callers_update k s) = statement s"
  by (simp_all add: fun_eq_iff statement_def)

lemma teardown_update [simp]:
  "teardown (effects_update f s) = teardown s"
  "teardown (closing_task_update g s) = teardown s"
  "teardown (started_update h s) = teardown s"
  "teardown (callers_update k s) = teardown s"
  by (simp_all add: teardown_def)

lemma in_set_update: "c \<in> set (xs[i := v]) \<Longrightarrow> c = v \<or> c \<in> set xs"
  using set_update_subset_insert [of xs i v] by auto

lemma upto_six_list: "[0..<6] = [0, 1, 2, 3, 4, 5::nat]"
  by (simp add: upt_rec)

lemma upto_six: "[0..<6] = [0..<5] @ [5::nat]"
  by (simp add: upt_rec)

lemma closing_inv_loop_step: "closing_inv s \<Longrightarrow> closing_inv (loop_step s e)"
proof (cases e)
  case (Call i)
  assume "closing_inv s"
  then show ?thesis
    using Call
    by (cases "closing_task s")
       (auto simp add: closing_inv_def Client_close_def
          dest!: in_set_update split: task.splits)
next
  case Run
  assume "closing_inv s"
  then show ?thesis
    using Run
    by (auto simp add: closing_inv_def Client_close_task_def teardown_def upto_six
          split: option.splits task.splits)
next
  case Fail
  assume "closing_inv s"
  then show ?thesis
    using Fail
    by (auto simp add: closing_inv_def
          split: option.splits task.splits)
next
  case (Resume i)
  assume "closing_inv s"
  then show ?thesis
    using Resume
    by (auto simp add: closing_inv_def
          dest!: in_set_update split: option.splits task.splits)
qed

lemma closing_inv_loop_run: "closing_inv s \<Longrightarrow> closing_inv (loop_run s es)"
  unfolding loop_run_def by (induction es arbitrary: s) (simp_all add: closing_inv_loop_step)

lemma closing_inv_open_client: "closing_inv (open_client ws rdy st n)"
  by (simp add: closing_inv_def open_client_def)

lemma loop_step_frame:
  "ws_open (loop_step s e) = ws_open s \<and> ready (loop_step s e) = ready s \<and> site (loop_step s e) = site s \<and>
   length (callers (loop_step s e)) = length (callers s)"
  by (cases e)
    (simp_all add: Client_close_def Client_close_task_def split: option.splits task.splits)

lemma loop_run_frame:
  "ws_open (loop_run s es) = ws_open s \<and> ready (loop_run s es) = ready s \<and> site (loop_run s es) = site s \<and>
   length (callers (loop_run s es)) = length (callers s)"
  unfolding loop_run_def by (induction es arbitrary: s) (simp_all add: loop_step_frame)

lemma teardown_frame:
  "ws_open s' = ws_open s \<Longrightarrow> ready s' = ready s \<Longrightarrow> site s' = site s \<Longrightarrow>
   teardown s' = teardown s"
proof -
  assume "ws_open s' = ws_open s" "ready s' = ready s" "site s' = site s"
  then have "statement s' = statement s"
    by (simp add: fun_eq_iff statement_def)
  then show ?thesis
    by (simp add: teardown_def)
qed

lemma prefix_teardown:
  assumes "pc \<le> 6"
  shows "prefix (concat (map (statement s) [0..<pc])) (teardown s)"
proof -
  have "[0..<6] = [0..<pc] @ [pc..<6]"
    using assms upt_add_eq_append [of 0 pc "6 - pc"] by simp
  then show ?thesis
    by (simp add: teardown_def)
qed

lemma closing_inv_started: "closing_inv s \<Longrightarrow> started s \<le> 1"
  by (auto simp add: closing_inv_def split: option.splits task.splits)

lemma closing_inv_prefix: "closing_inv s \<Longrightarrow> prefix (effects s) (teardown s)"
  by (auto simp add: closing_inv_def prefix_teardown split: option.splits task.splits)

lemma closing_inv_called:
  "closing_inv s \<Longrightarrow> i < length (callers s) \<Longrightarrow> callers s ! i \<noteq> Idle \<Longrightarrow> started s = 1"
  by (cases "closing_task s") (auto simp add: closing_inv_def split: task.splits)

lemma closing_inv_returned:
  "closing_inv s \<Longrightarrow> i < length (callers s) \<Longrightarrow> callers s ! i = Returned \<Longrightarrow>
   closing_task s = Some Done \<and> effects s = teardown s"
  using nth_mem [of i "callers s"]
  by (cases "closing_task s") (auto simp add: closing_inv_def split: task.splits)

text \<open>
  C7. \<^verbatim>\<open>close\<close> called by any number of callers, in any interleaving with the statements
  of the teardown and with one another, failures of the teardown included. In every state
  that a schedule reaches: at most one \<^verbatim>\<open>_close()\<close> coroutine has been created, and exactly
  one as soon as any caller has called; the effects performed are an initial part of one
  teardown sequence, which is the one fixed by the client before the first call; a
  caller whose call has returned finds the task done and the whole sequence performed,
  once; and a call made when the task is set changes nothing but the caller, who awaits
  the task.
\<close>

theorem close_idempotent:
  assumes "self = loop_run (open_client ws rdy st n) schedule"
  shows "started self \<le> 1 \<and>
         prefix (effects self) (teardown self) \<and>
         teardown self = teardown (open_client ws rdy st n) \<and>
         length (callers self) = n \<and>
         (\<forall>i<n. callers self ! i \<noteq> Idle \<longrightarrow> started self = 1) \<and>
         (\<forall>i<n. callers self ! i = Returned \<longrightarrow>
            closing_task self = Some Done \<and> effects self = teardown self) \<and>
         (closing_task self \<noteq> None \<longrightarrow>
            (\<forall>i. Client_close self i = self\<lparr>callers := (callers self)[i := Awaiting]\<rparr>))"
proof -
  have inv: "closing_inv self"
    unfolding assms by (rule closing_inv_loop_run) (rule closing_inv_open_client)
  have frame: "ws_open self = ws_open (open_client ws rdy st n)"
    "ready self = ready (open_client ws rdy st n)"
    "site self = site (open_client ws rdy st n)"
    "length (callers self) = n"
    unfolding assms using loop_run_frame [of "open_client ws rdy st n" schedule]
    by (simp_all add: open_client_def)
  show ?thesis
    using closing_inv_started [OF inv] closing_inv_prefix [OF inv] closing_inv_called [OF inv]
      closing_inv_returned [OF inv] teardown_frame [OF frame(1,2,3)] frame(4)
    by (simp add: Client_close_def)
qed

theorem close_idempotent_witness:
  "started (loop_run (open_client True True True 2)
     [Call 0, Call 1, Run, Run, Run, Run, Run, Run, Resume 0, Resume 1]) = 1 \<and>
   effects (loop_run (open_client True True True 2)
     [Call 0, Call 1, Run, Run, Run, Run, Run, Run, Resume 0, Resume 1]) =
     [ConnectionClose, WsClose, ReadyClear, SiteStop, HttpClose, LoopMissing] \<and>
   callers (loop_run (open_client True True True 2)
     [Call 0, Call 1, Run, Run, Run, Run, Run, Run, Resume 0, Resume 1]) = [Returned, Returned]"
  using close_idempotent
    [of "loop_run (open_client True True True 2)
          [Call 0, Call 1, Run, Run, Run, Run, Run, Run, Resume 0, Resume 1]"
        True True True 2 "[Call 0, Call 1, Run, Run, Run, Run, Run, Run, Resume 0, Resume 1]"]
  by (simp add: loop_run_def open_client_def Client_close_def Client_close_task_def statement_def
      teardown_def upto_six_list numeral_2_eq_2)

end
